theory Spec2Isabelle
  imports Complex_Main
begin

section \<open>The Palmer Penguins inference service (main.py)\<close>

text \<open>
  The service keeps three module-level variables (the active model's name, the active
  pipeline and the parsed registry), reads two kinds of file below the directory
  \<open>models\<close> and answers four HTTP endpoints. The embedding makes the three globals a
  record that every operation takes and returns, makes the file system an explicit
  argument, and makes every \<open>raise\<close> a value: an operation returns the pair of its
  outcome (\<open>Inl\<close> the exception, \<open>Inr\<close> the returned value) and the globals as the call
  leaves them, since an assignment made before a \<open>raise\<close> stays in effect.
\<close>

subsection \<open>Exceptions\<close>

text \<open>
  \<open>RuntimeError\<close> and \<open>HTTPException\<close> are the two exceptions the module raises itself;
  the others come out of the library calls it makes (\<open>json.load\<close>, \<open>joblib.load\<close>,
  attribute access on \<open>None\<close>, indexing an empty result, the pipeline's own
  \<open>predict\<close>).
\<close>

datatype error =
    RuntimeError string
  | HTTPException nat string
  | JSONDecodeError
  | UnpicklingError
  | AttributeError
  | IndexError
  | PipelineError string

subsection \<open>Request and response bodies\<close>

text \<open>
  The two pydantic models. The optional measurements are floats that the service only
  copies into the table, never computes with; they are carried as \<open>real\<close>.
\<close>

record PenguinFeatures =
  island :: string
  bill_length_mm :: "real option"
  bill_depth_mm :: "real option"
  flipper_length_mm :: "real option"
  body_mass_g :: "real option"
  sex :: "string option"
  year :: int

record SelectModelRequest =
  model_name :: string

text \<open>The dictionaries the endpoints return.\<close>

record status_response =
  message :: string
  active_model :: "string option"

record models_response =
  listed_default_model :: "string option"
  listed_available_models :: "string list"
  listed_active_model :: "string option"

record predict_response =
  prediction :: string
  model_used :: "string option"

subsection \<open>The registry descriptor and the file system\<close>

text \<open>
  \<open>registry.json\<close> parses to a dictionary with the keys \<open>default_model\<close> (a string) and
  \<open>available_models\<close> (a list of strings); either key may be missing, which is what
  \<open>dict.get\<close> tests. A JSON \<open>null\<close> under a key reads as \<open>None\<close> exactly like a
  missing key does for \<open>REGISTRY.get("default_model")\<close>.
\<close>

record registry =
  default_model :: "string option"
  available_models :: "string list option"

text \<open>
  A file is a registry descriptor, a serialized pipeline, or something neither
  \<open>json.load\<close> nor \<open>joblib.load\<close> can read. The pipeline objects are opaque
  (type \<open>'p\<close>): \<open>joblib.load\<close> hands back the trained pipeline the docstring of
  \<open>load_model\<close> promises.
\<close>

datatype 'p stored_file = Descriptor registry | Artifact 'p | Garbage

type_synonym 'p filesystem = "string \<Rightarrow> 'p stored_file option"

definition MODELS_DIR :: string where
  "MODELS_DIR = ''models''"

text \<open>\<open>pathlib\<close>'s \<open>/\<close>: an absolute right operand replaces the left one.\<close>

definition path_join :: "string \<Rightarrow> string \<Rightarrow> string" where
  "path_join d f = (if f \<noteq> [] \<and> hd f = CHR ''/'' then f else d @ ''/'' @ f)"

definition REGISTRY_PATH :: string where
  "REGISTRY_PATH = path_join MODELS_DIR ''registry.json''"

subsection \<open>The module-level state\<close>

record 'p state =
  ACTIVE_MODEL_NAME :: "string option"
  ACTIVE_MODEL_PIPE :: "'p option"
  REGISTRY :: "registry option"

definition init_state :: "'p state" where
  "init_state = \<lparr>ACTIVE_MODEL_NAME = None, ACTIVE_MODEL_PIPE = None, REGISTRY = None\<rparr>"

subsection \<open>Helper functions\<close>

definition load_registry :: "'p filesystem \<Rightarrow> error + registry" where
  "load_registry fs =
     (case fs REGISTRY_PATH of
        None \<Rightarrow> Inl (RuntimeError ''registry.json no existe en /models'')
      | Some (Descriptor r) \<Rightarrow> Inr r
      | Some _ \<Rightarrow> Inl JSONDecodeError)"

definition model_path :: "string \<Rightarrow> string" where
  "model_path name = path_join MODELS_DIR (name @ ''.joblib'')"

definition load_model :: "'p filesystem \<Rightarrow> string \<Rightarrow> error + 'p" where
  "load_model fs name =
     (case fs (model_path name) of
        None \<Rightarrow> Inl (HTTPException 404 (''Modelo no encontrado: '' @ name))
      | Some (Artifact p) \<Rightarrow> Inr p
      | Some _ \<Rightarrow> Inl UnpicklingError)"

text \<open>
  \<open>set_active_model\<close> assigns the pipeline first and the name second; \<open>load_model\<close> is
  evaluated before the first assignment, so when it raises neither global is written.
\<close>

definition set_active_model :: "'p filesystem \<Rightarrow> string \<Rightarrow> 'p state \<Rightarrow> (error + unit) \<times> 'p state" where
  "set_active_model fs name s =
     (case load_model fs name of
        Inl e \<Rightarrow> (Inl e, s)
      | Inr p \<Rightarrow> (Inr (), s\<lparr>ACTIVE_MODEL_PIPE := Some p, ACTIVE_MODEL_NAME := Some name\<rparr>))"

subsection \<open>Startup\<close>

definition startup_event :: "'p filesystem \<Rightarrow> 'p state \<Rightarrow> (error + unit) \<times> 'p state" where
  "startup_event fs s =
     (case load_registry fs of
        Inl e \<Rightarrow> (Inl e, s)
      | Inr r \<Rightarrow>
          (let s1 = s\<lparr>REGISTRY := Some r\<rparr> in
           case default_model r of
             None \<Rightarrow> (Inl (RuntimeError (''registry.json no tiene '' @ [CHR 0x27] @ ''default_model'' @ [CHR 0x27])), s1)
           | Some d \<Rightarrow> set_active_model fs d s1))"

subsection \<open>Endpoints\<close>

definition home :: "'p state \<Rightarrow> status_response" where
  "home s = \<lparr>message = ''API Penguins funcionando'', active_model = ACTIVE_MODEL_NAME s\<rparr>"

text \<open>\<open>REGISTRY.get(key, [])\<close> on the parsed descriptor.\<close>

definition get_available_models :: "registry \<Rightarrow> string list" where
  "get_available_models r = (case available_models r of None \<Rightarrow> [] | Some xs \<Rightarrow> xs)"

definition list_models :: "'p state \<Rightarrow> error + models_response" where
  "list_models s =
     (case REGISTRY s of
        None \<Rightarrow> Inl AttributeError
      | Some r \<Rightarrow>
          Inr \<lparr>listed_default_model = default_model r,
               listed_available_models = get_available_models r,
               listed_active_model = ACTIVE_MODEL_NAME s\<rparr>)"

definition select_model ::
  "'p filesystem \<Rightarrow> SelectModelRequest \<Rightarrow> 'p state \<Rightarrow> (error + status_response) \<times> 'p state" where
  "select_model fs req s =
     (case REGISTRY s of
        None \<Rightarrow> (Inl AttributeError, s)
      | Some r \<Rightarrow>
          (let available = get_available_models r in
           if model_name req \<notin> set available
           then (Inl (HTTPException 404 (''Modelo no disponible: '' @ model_name req)), s)
           else
             (case set_active_model fs (model_name req) s of
                (Inl e, s') \<Rightarrow> (Inl e, s')
              | (Inr u, s') \<Rightarrow>
                  (Inr \<lparr>message = ''Modelo activo actualizado'',
                        active_model = ACTIVE_MODEL_NAME s'\<rparr>, s'))))"

subsection \<open>Prediction\<close>

text \<open>
  The cells of the one-row table: what \<open>features.dict()\<close> holds under each field name.
\<close>

datatype cell = StrCell string | FloatCell real | IntCell int | NoneCell

definition opt_cell :: "('a \<Rightarrow> cell) \<Rightarrow> 'a option \<Rightarrow> cell" where
  "opt_cell f v = (case v of None \<Rightarrow> NoneCell | Some x \<Rightarrow> f x)"

text \<open>\<open>features.dict()\<close>: the fields in the order the class declares them.\<close>

definition features_dict :: "PenguinFeatures \<Rightarrow> (string \<times> cell) list" where
  "features_dict f =
     [(''island'', StrCell (island f)),
      (''bill_length_mm'', opt_cell FloatCell (bill_length_mm f)),
      (''bill_depth_mm'', opt_cell FloatCell (bill_depth_mm f)),
      (''flipper_length_mm'', opt_cell FloatCell (flipper_length_mm f)),
      (''body_mass_g'', opt_cell FloatCell (body_mass_g f)),
      (''sex'', opt_cell StrCell (sex f)),
      (''year'', IntCell (year f))]"

record dataframe =
  columns :: "string list"
  rows :: "cell list list"

text \<open>\<open>pd.DataFrame([d])\<close>: one row, the columns named by the keys of \<open>d\<close>.\<close>

definition DataFrame1 :: "(string \<times> cell) list \<Rightarrow> dataframe" where
  "DataFrame1 d = \<lparr>columns = map fst d, rows = [map snd d]\<rparr>"

text \<open>
  The pipeline's \<open>predict\<close> method belongs to the library that trained it; it is the
  parameter \<open>pipe_predict\<close>, which returns the array of labels or the exception the
  pipeline raised. \<open>[0]\<close> on an empty array raises.
\<close>

definition predict ::
  "('p \<Rightarrow> dataframe \<Rightarrow> error + string list) \<Rightarrow> PenguinFeatures \<Rightarrow> 'p state
     \<Rightarrow> (error + predict_response) \<times> 'p state" where
  "predict pipe_predict features s =
     (case ACTIVE_MODEL_PIPE s of
        None \<Rightarrow> (Inl (HTTPException 500 ''Modelo no cargado''), s)
      | Some pipe \<Rightarrow>
          (let df = DataFrame1 (features_dict features) in
           case pipe_predict pipe df of
             Inl e \<Rightarrow> (Inl e, s)
           | Inr [] \<Rightarrow> (Inl IndexError, s)
           | Inr (pred # rest) \<Rightarrow>
               (Inr \<lparr>prediction = pred, model_used = ACTIVE_MODEL_NAME s\<rparr>, s)))"

subsection \<open>Sequences of calls\<close>

text \<open>
  A call is a run of the startup hook or a request to one of the two endpoints that
  touch the globals; each comes with the file system it finds. \<open>run\<close> performs a list
  of calls from left to right and keeps the state, whatever each call's outcome was.
\<close>

datatype 'p call =
    Startup "'p filesystem"
  | Select "'p filesystem" SelectModelRequest
  | Predict PenguinFeatures

fun is_Startup :: "'p call \<Rightarrow> bool" where
  "is_Startup (Startup fs) = True"
| "is_Startup (Select fs req) = False"
| "is_Startup (Predict f) = False"

fun exec :: "('p \<Rightarrow> dataframe \<Rightarrow> error + string list) \<Rightarrow> 'p call \<Rightarrow> 'p state \<Rightarrow> 'p state" where
  "exec pp (Startup fs) s = snd (startup_event fs s)"
| "exec pp (Select fs req) s = snd (select_model fs req s)"
| "exec pp (Predict f) s = snd (predict pp f s)"

fun run :: "('p \<Rightarrow> dataframe \<Rightarrow> error + string list) \<Rightarrow> 'p call list \<Rightarrow> 'p state \<Rightarrow> 'p state" where
  "run pp [] s = s"
| "run pp (c # cs) s = run pp cs (exec pp c s)"

subsection \<open>Concrete scenarios\<close>

text \<open>
  The scenarios of the specification, with pipelines identified by a number: a registry
  that lists \<open>rf\<close> and \<open>svm\<close> with both artifacts present, the same registry with the
  \<open>svm\<close> artifact missing, a directory holding one more artifact than the registry
  lists, a registry whose default is not among its available models, and a descriptor
  without the \<open>default_model\<close> key.
\<close>

definition listed_registry :: registry where
  "listed_registry = \<lparr>default_model = Some ''rf'', available_models = Some [''rf'', ''svm'']\<rparr>"

definition fs_both :: "nat filesystem" where
  "fs_both = (\<lambda>path. None)
     (''models/registry.json'' \<mapsto> Descriptor listed_registry,
      ''models/rf.joblib'' \<mapsto> Artifact 1,
      ''models/svm.joblib'' \<mapsto> Artifact 2)"

definition fs_rf_only :: "nat filesystem" where
  "fs_rf_only = (\<lambda>path. None)
     (''models/registry.json'' \<mapsto> Descriptor listed_registry,
      ''models/rf.joblib'' \<mapsto> Artifact 1)"

definition fs_xgb_unlisted :: "nat filesystem" where
  "fs_xgb_unlisted = fs_both(''models/xgb.joblib'' \<mapsto> Artifact 3)"

definition fs_none :: "nat filesystem" where
  "fs_none = (\<lambda>path. None)"

definition unlisted_default_registry :: registry where
  "unlisted_default_registry = \<lparr>default_model = Some ''rf'', available_models = Some [''svm'']\<rparr>"

definition fs_unlisted_default :: "nat filesystem" where
  "fs_unlisted_default = (\<lambda>path. None)
     (''models/registry.json'' \<mapsto> Descriptor unlisted_default_registry,
      ''models/rf.joblib'' \<mapsto> Artifact 1,
      ''models/svm.joblib'' \<mapsto> Artifact 2)"

definition no_default_registry :: registry where
  "no_default_registry = \<lparr>default_model = None, available_models = Some [''rf'']\<rparr>"

definition fs_no_default :: "nat filesystem" where
  "fs_no_default = (\<lambda>path. None)
     (''models/registry.json'' \<mapsto> Descriptor no_default_registry,
      ''models/rf.joblib'' \<mapsto> Artifact 1)"

definition ready_rf :: "nat state" where
  "ready_rf = \<lparr>ACTIVE_MODEL_NAME = Some ''rf'', ACTIVE_MODEL_PIPE = Some 1,
               REGISTRY = Some listed_registry\<rparr>"

definition ready_svm :: "nat state" where
  "ready_svm = \<lparr>ACTIVE_MODEL_NAME = Some ''svm'', ACTIVE_MODEL_PIPE = Some 2,
                REGISTRY = Some listed_registry\<rparr>"

definition biscoe_2008 :: PenguinFeatures where
  "biscoe_2008 = \<lparr>island = ''Biscoe'', bill_length_mm = None, bill_depth_mm = None,
                   flipper_length_mm = None, body_mass_g = None, sex = None, year = 2008\<rparr>"

definition label_by_handle :: "nat \<Rightarrow> dataframe \<Rightarrow> error + string list" where
  "label_by_handle p df = Inr [if p = 1 then ''Adelie'' else ''Gentoo'']"

section \<open>Properties\<close>

subsection \<open>Basic facts about paths, loading and switching\<close>

lemmas path_defs = REGISTRY_PATH_def model_path_def path_join_def MODELS_DIR_def

lemma load_model_missing:
  "fs (model_path name) = None \<Longrightarrow>
   load_model fs name = Inl (HTTPException 404 (''Modelo no encontrado: '' @ name))"
  by (simp add: load_model_def)

lemma set_active_model_fail:
  "load_model fs name = Inl e \<Longrightarrow> set_active_model fs name s = (Inl e, s)"
  by (simp add: set_active_model_def)

lemma set_active_model_ok:
  "load_model fs name = Inr p \<Longrightarrow>
   set_active_model fs name s =
     (Inr (), s\<lparr>ACTIVE_MODEL_PIPE := Some p, ACTIVE_MODEL_NAME := Some name\<rparr>)"
  by (simp add: set_active_model_def)

subsection \<open>Failed switches\<close>

text \<open>
  Claim C1. When the requested name is listed in the registry's \<open>available_models\<close> but
  no artifact file exists for it, the switch raises the load failure of \<open>load_model\<close>
  (the 404 "Modelo no encontrado") and the globals are exactly what they were: this
  holds for \<open>set_active_model\<close> called directly and for the endpoint \<open>select_model\<close>.
\<close>

theorem C1_missing_artifact_keeps_active:
  assumes reg: "REGISTRY s = Some r"
    and listed: "model_name req \<in> set (get_available_models r)"
    and missing: "fs (model_path (model_name req)) = None"
  shows "set_active_model fs (model_name req) s =
           (Inl (HTTPException 404 (''Modelo no encontrado: '' @ model_name req)), s)
         \<and> select_model fs req s =
           (Inl (HTTPException 404 (''Modelo no encontrado: '' @ model_name req)), s)"
proof -
  have set: "set_active_model fs (model_name req) s =
               (Inl (HTTPException 404 (''Modelo no encontrado: '' @ model_name req)), s)"
    using missing by (simp add: set_active_model_fail load_model_missing)
  have "select_model fs req s =
          (Inl (HTTPException 404 (''Modelo no encontrado: '' @ model_name req)), s)"
    using reg listed by (simp add: select_model_def set)
  with set show ?thesis by simp
qed

theorem C1_missing_artifact_keeps_active_witness:
  "REGISTRY ready_rf = Some listed_registry
   \<and> model_name \<lparr>model_name = ''svm''\<rparr> \<in> set (get_available_models listed_registry)
   \<and> fs_rf_only (model_path (model_name \<lparr>model_name = ''svm''\<rparr>)) = None
   \<and> select_model fs_rf_only \<lparr>model_name = ''svm''\<rparr> ready_rf =
       (Inl (HTTPException 404 ''Modelo no encontrado: svm''), ready_rf)"
proof -
  have reg: "REGISTRY ready_rf = Some listed_registry"
    by (simp add: ready_rf_def)
  have listed: "model_name \<lparr>model_name = ''svm''\<rparr> \<in> set (get_available_models listed_registry)"
    by (simp add: get_available_models_def listed_registry_def)
  have missing: "fs_rf_only (model_path (model_name \<lparr>model_name = ''svm''\<rparr>)) = None"
    by (simp add: fs_rf_only_def path_defs)
  from C1_missing_artifact_keeps_active
         [where s = ready_rf and r = listed_registry and fs = fs_rf_only
            and req = "\<lparr>model_name = ''svm''\<rparr>", OF reg listed missing]
       reg listed missing
  show ?thesis by simp
qed

text \<open>
  Claim C2. When the requested name is not in the registry's \<open>available_models\<close>,
  \<open>select_model\<close> raises the 404 "Modelo no disponible" and leaves the globals as they
  were. The file system \<open>fs\<close> is arbitrary and the outcome does not depend on it: the
  request is refused before any artifact is looked up, also when an artifact of that
  name exists.
\<close>

theorem C2_unlisted_name_not_found:
  assumes reg: "REGISTRY s = Some r"
    and unlisted: "model_name req \<notin> set (get_available_models r)"
  shows "select_model fs req s =
           (Inl (HTTPException 404 (''Modelo no disponible: '' @ model_name req)), s)
         \<and> select_model fs req s = select_model fs' req s"
  using reg unlisted by (simp add: select_model_def)

theorem C2_unlisted_name_not_found_witness:
  "REGISTRY ready_rf = Some listed_registry
   \<and> model_name \<lparr>model_name = ''xgb''\<rparr> \<notin> set (get_available_models listed_registry)
   \<and> load_model fs_xgb_unlisted ''xgb'' = Inr 3
   \<and> select_model fs_xgb_unlisted \<lparr>model_name = ''xgb''\<rparr> ready_rf =
       (Inl (HTTPException 404 ''Modelo no disponible: xgb''), ready_rf)"
proof -
  have reg: "REGISTRY ready_rf = Some listed_registry"
    by (simp add: ready_rf_def)
  have unlisted:
    "model_name \<lparr>model_name = ''xgb''\<rparr> \<notin> set (get_available_models listed_registry)"
    by (simp add: get_available_models_def listed_registry_def)
  have present: "load_model fs_xgb_unlisted ''xgb'' = Inr 3"
    by (simp add: load_model_def fs_xgb_unlisted_def fs_both_def path_defs)
  from C2_unlisted_name_not_found
         [where s = ready_rf and r = listed_registry and fs = fs_xgb_unlisted
            and fs' = fs_none and req = "\<lparr>model_name = ''xgb''\<rparr>", OF reg unlisted]
       reg unlisted present
  show ?thesis by simp
qed

subsection \<open>Prediction\<close>

text \<open>
  Claim C5. Whatever the feature record, when no pipeline is active \<open>predict\<close> raises
  the HTTP 500 "Modelo no cargado" (a server error with a detail string); the pipeline's
  \<open>predict\<close> is not consulted and the globals are untouched.
\<close>

theorem C5_predict_without_model:
  assumes "ACTIVE_MODEL_PIPE s = None"
  shows "predict pipe_predict features s = (Inl (HTTPException 500 ''Modelo no cargado''), s)"
  using assms by (simp add: predict_def)

theorem C5_predict_without_model_witness:
  "ACTIVE_MODEL_PIPE (init_state :: nat state) = None
   \<and> predict label_by_handle biscoe_2008 (init_state :: nat state) =
       (Inl (HTTPException 500 ''Modelo no cargado''), init_state)"
proof -
  have none: "ACTIVE_MODEL_PIPE (init_state :: nat state) = None"
    by (simp add: init_state_def)
  from C5_predict_without_model [OF none, of label_by_handle biscoe_2008] none
  show ?thesis by simp
qed

lemma features_frame:
  "DataFrame1 (features_dict f) =
     \<lparr>columns = [''island'', ''bill_length_mm'', ''bill_depth_mm'', ''flipper_length_mm'',
                  ''body_mass_g'', ''sex'', ''year''],
      rows = [[StrCell (island f),
               opt_cell FloatCell (bill_length_mm f),
               opt_cell FloatCell (bill_depth_mm f),
               opt_cell FloatCell (flipper_length_mm f),
               opt_cell FloatCell (body_mass_g f),
               opt_cell StrCell (sex f),
               IntCell (year f)]]\<rparr>"
  by (simp add: DataFrame1_def features_dict_def)

text \<open>
  Claim C6. With a pipeline active, the table handed to the pipeline has exactly one
  row and its columns are the seven declared field names in their declared order, each
  cell holding the record's value for that field; when the pipeline's \<open>predict\<close> returns
  a result on that table, the response carries the first element of that result as
  \<open>prediction\<close> and the current \<open>ACTIVE_MODEL_NAME\<close> as \<open>model_used\<close>.
\<close>

theorem C6_predict_first_label_and_active_name:
  assumes active: "ACTIVE_MODEL_PIPE s = Some pipe"
    and result: "pipe_predict pipe (DataFrame1 (features_dict features)) = Inr (pred # rest)"
  shows "DataFrame1 (features_dict features) =
           \<lparr>columns = [''island'', ''bill_length_mm'', ''bill_depth_mm'',
                        ''flipper_length_mm'', ''body_mass_g'', ''sex'', ''year''],
            rows = [[StrCell (island features),
                     opt_cell FloatCell (bill_length_mm features),
                     opt_cell FloatCell (bill_depth_mm features),
                     opt_cell FloatCell (flipper_length_mm features),
                     opt_cell FloatCell (body_mass_g features),
                     opt_cell StrCell (sex features),
                     IntCell (year features)]]\<rparr>
         \<and> predict pipe_predict features s =
             (Inr \<lparr>prediction = pred, model_used = ACTIVE_MODEL_NAME s\<rparr>, s)"
proof -
  have "predict pipe_predict features s =
          (Inr \<lparr>prediction = pred, model_used = ACTIVE_MODEL_NAME s\<rparr>, s)"
    using active result by (simp add: predict_def)
  then show ?thesis by (simp add: features_frame)
qed

theorem C6_predict_first_label_and_active_name_witness:
  "ACTIVE_MODEL_PIPE ready_svm = Some 2
   \<and> label_by_handle 2 (DataFrame1 (features_dict biscoe_2008)) = Inr [''Gentoo'']
   \<and> predict label_by_handle biscoe_2008 ready_svm =
       (Inr \<lparr>prediction = ''Gentoo'', model_used = Some ''svm''\<rparr>, ready_svm)"
proof -
  have active: "ACTIVE_MODEL_PIPE ready_svm = Some 2"
    by (simp add: ready_svm_def)
  have result: "label_by_handle 2 (DataFrame1 (features_dict biscoe_2008)) = Inr (''Gentoo'' # [])"
    by (simp add: label_by_handle_def)
  have name: "ACTIVE_MODEL_NAME ready_svm = Some ''svm''"
    by (simp add: ready_svm_def)
  from C6_predict_first_label_and_active_name
         [where s = ready_svm and pipe = 2 and pipe_predict = label_by_handle
            and features = biscoe_2008 and pred = "''Gentoo''" and rest = "[]",
          OF active result]
       active result name
  show ?thesis by simp
qed

subsection \<open>Successful switches and startup\<close>

text \<open>
  Claim C7. For names \<open>A\<close> and \<open>B\<close> whose loads succeed, switching to \<open>A\<close>, then to
  \<open>B\<close>, then back to \<open>A\<close> leaves the same active model name as the single switch to
  \<open>A\<close>, namely \<open>A\<close>. The three switches may find three different file systems; when
  the last finds the one the first found, the whole state is the same.
\<close>

theorem C7_switch_and_back:
  assumes a1: "load_model fs1 A = Inr pa"
    and b: "load_model fs2 B = Inr pb"
    and a2: "load_model fs3 A = Inr pa'"
  shows "ACTIVE_MODEL_NAME
           (snd (set_active_model fs3 A
              (snd (set_active_model fs2 B (snd (set_active_model fs1 A s))))))
         = ACTIVE_MODEL_NAME (snd (set_active_model fs1 A s))
       \<and> ACTIVE_MODEL_NAME (snd (set_active_model fs1 A s)) = Some A
       \<and> (fs3 = fs1 \<longrightarrow>
            snd (set_active_model fs3 A
              (snd (set_active_model fs2 B (snd (set_active_model fs1 A s)))))
            = snd (set_active_model fs1 A s))"
  using a1 b a2 by (auto simp add: set_active_model_ok)

theorem C7_switch_and_back_witness:
  "load_model fs_both ''rf'' = Inr 1 \<and> load_model fs_both ''svm'' = Inr 2
   \<and> snd (set_active_model fs_both ''rf''
        (snd (set_active_model fs_both ''svm'' (snd (set_active_model fs_both ''rf'' ready_svm)))))
     = ready_rf
   \<and> snd (set_active_model fs_both ''rf'' ready_svm) = ready_rf"
proof -
  have a: "load_model fs_both ''rf'' = Inr 1"
    by (simp add: load_model_def fs_both_def path_defs)
  have b: "load_model fs_both ''svm'' = Inr 2"
    by (simp add: load_model_def fs_both_def path_defs)
  have single: "snd (set_active_model fs_both ''rf'' ready_svm) = ready_rf"
    by (simp add: set_active_model_ok [OF a] ready_svm_def ready_rf_def)
  from C7_switch_and_back [OF a b a, of ready_svm] a b single
  show ?thesis by simp
qed



subsection \<open>What a call can change\<close>


lemma set_active_model_REGISTRY:
  "REGISTRY (snd (set_active_model fs name s)) = REGISTRY s"
  by (simp add: set_active_model_def split: sum.splits)

lemma select_model_state:
  "snd (select_model fs req s) = s
   \<or> snd (select_model fs req s) = snd (set_active_model fs (model_name req) s)"
  by (simp add: select_model_def Let_def split: option.splits prod.splits sum.splits)

lemma predict_state: "snd (predict pp f s) = s"
  by (simp add: predict_def Let_def split: option.splits sum.splits list.splits)





lemma select_model_REGISTRY: "REGISTRY (snd (select_model fs req s)) = REGISTRY s"
  using select_model_state [of fs req s] by (auto simp add: set_active_model_REGISTRY)

lemma exec_REGISTRY: "\<not> is_Startup c \<Longrightarrow> REGISTRY (exec pp c s) = REGISTRY s"
  by (cases c) (simp_all add: select_model_REGISTRY predict_state)

lemma run_REGISTRY: "\<forall>c\<in>set cs. \<not> is_Startup c \<Longrightarrow> REGISTRY (run pp cs s) = REGISTRY s"
  by (induction cs arbitrary: s) (simp_all add: exec_REGISTRY)

lemma select_model_listed:
  assumes reg: "REGISTRY s = Some r"
    and act: "\<exists>n. ACTIVE_MODEL_NAME s = Some n \<and> n \<in> set (get_available_models r)"
  shows "\<exists>n. ACTIVE_MODEL_NAME (snd (select_model fs req s)) = Some n
              \<and> n \<in> set (get_available_models r)"
  using reg act
  by (auto simp add: select_model_def Let_def set_active_model_def split: sum.splits)

lemma exec_listed:
  assumes "\<not> is_Startup c" "REGISTRY s = Some r"
    and "\<exists>n. ACTIVE_MODEL_NAME s = Some n \<and> n \<in> set (get_available_models r)"
  shows "\<exists>n. ACTIVE_MODEL_NAME (exec pp c s) = Some n \<and> n \<in> set (get_available_models r)"
proof (cases c)
  case (Startup fs)
  with assms(1) show ?thesis by simp
next
  case (Select fs req)
  then show ?thesis using select_model_listed [OF assms(2,3)] by simp
next
  case (Predict f)
  then show ?thesis using assms(3) by (simp add: predict_state)
qed

lemma run_listed:
  "\<forall>c\<in>set cs. \<not> is_Startup c \<Longrightarrow> REGISTRY s = Some r \<Longrightarrow>
   \<exists>n. ACTIVE_MODEL_NAME s = Some n \<and> n \<in> set (get_available_models r) \<Longrightarrow>
   \<exists>n. ACTIVE_MODEL_NAME (run pp cs s) = Some n \<and> n \<in> set (get_available_models r)"
proof (induction cs arbitrary: s)
  case Nil
  then show ?case by simp
next
  case (Cons c cs)
  have c: "\<not> is_Startup c" and cs: "\<forall>c\<in>set cs. \<not> is_Startup c"
    using Cons.prems(1) by simp_all
  have "REGISTRY (exec pp c s) = Some r"
    using c Cons.prems(2) by (simp add: exec_REGISTRY)
  moreover have "\<exists>n. ACTIVE_MODEL_NAME (exec pp c s) = Some n \<and> n \<in> set (get_available_models r)"
    using c Cons.prems(2,3) by (rule exec_listed)
  ultimately show ?case using Cons.IH [OF cs] by simp
qed

subsection \<open>Invariants of the module-level state\<close>



text \<open>
  Claim C10. \<open>select_model\<close> leaves \<open>REGISTRY\<close> as it was: the state it returns is the
  given state with at most the active pipeline and the active name replaced.
  \<open>predict\<close> returns the state unchanged, so a repeated \<open>predict\<close> call reads the same
  state and gives the same outcome. Over any sequence of endpoint requests (no startup
  run among them) the registry stays what it was.
\<close>

theorem C10_endpoints_keep_registry:
  "REGISTRY (snd (select_model fs req s)) = REGISTRY s
   \<and> snd (select_model fs req s) =
       s\<lparr>ACTIVE_MODEL_PIPE := ACTIVE_MODEL_PIPE (snd (select_model fs req s)),
         ACTIVE_MODEL_NAME := ACTIVE_MODEL_NAME (snd (select_model fs req s))\<rparr>
   \<and> snd (predict pp f s) = s
   \<and> predict pp f (snd (predict pp f s)) = predict pp f s
   \<and> ((\<forall>c\<in>set cs. \<not> is_Startup c) \<longrightarrow> REGISTRY (run pp cs s) = REGISTRY s)"
proof -
  have frame: "snd (select_model fs req s) =
       s\<lparr>ACTIVE_MODEL_PIPE := ACTIVE_MODEL_PIPE (snd (select_model fs req s)),
         ACTIVE_MODEL_NAME := ACTIVE_MODEL_NAME (snd (select_model fs req s))\<rparr>"
    using select_model_state [of fs req s]
    by (auto simp add: set_active_model_def split: sum.splits)
  show ?thesis
    using frame by (simp add: select_model_REGISTRY predict_state run_REGISTRY)
qed

theorem C10_endpoints_keep_registry_witness:
  "map is_Startup [Select fs_both \<lparr>model_name = ''svm''\<rparr>, Predict biscoe_2008,
                   Select fs_none \<lparr>model_name = ''rf''\<rparr>]
     = [False, False, False]
   \<and> REGISTRY (run label_by_handle
        [Select fs_both \<lparr>model_name = ''svm''\<rparr>, Predict biscoe_2008,
         Select fs_none \<lparr>model_name = ''rf''\<rparr>] ready_rf) = Some listed_registry"
proof -
  have calls: "\<forall>c\<in>set [Select fs_both \<lparr>model_name = ''svm''\<rparr>, Predict biscoe_2008,
               Select fs_none \<lparr>model_name = ''rf''\<rparr>]. \<not> is_Startup c"
    by simp
  have reg: "REGISTRY ready_rf = Some listed_registry"
    by (simp add: ready_rf_def)
  from C10_endpoints_keep_registry
     [where pp = label_by_handle and s = ready_rf
        and cs = "[Select fs_both \<lparr>model_name = ''svm''\<rparr>, Predict biscoe_2008,
               Select fs_none \<lparr>model_name = ''rf''\<rparr>]"]
     calls reg
  show ?thesis by simp
qed

text \<open>
  Claim C3, counterexample. With a descriptor whose \<open>default_model\<close> is \<open>rf\<close> and whose
  \<open>available_models\<close> is \<open>[svm]\<close>, and an artifact for \<open>rf\<close> present, startup from the
  initial state succeeds and makes \<open>rf\<close> active although \<open>rf\<close> is not a member of
  \<open>available_models\<close>: \<open>startup_event\<close> never looks at \<open>available_models\<close>.
\<close>

theorem C3_unlisted_default_counterexample:
  "fst (startup_event fs_unlisted_default init_state) = Inr ()
   \<and> ACTIVE_MODEL_NAME (snd (startup_event fs_unlisted_default init_state)) = Some ''rf''
   \<and> REGISTRY (snd (startup_event fs_unlisted_default init_state))
        = Some \<lparr>default_model = Some ''rf'', available_models = Some [''svm'']\<rparr>
   \<and> ''rf'' \<notin> set (get_available_models
                      \<lparr>default_model = Some ''rf'', available_models = Some [''svm'']\<rparr>)"
  by (simp add: startup_event_def load_registry_def set_active_model_def load_model_def
        fs_unlisted_default_def unlisted_default_registry_def init_state_def
        get_available_models_def path_defs)

text \<open>
  Claim C3, amended. Startup activates the registry's \<open>default_model\<close> without checking
  it against \<open>available_models\<close>; when the default model is itself listed there, every
  state reached by a successful startup followed by any sequence of \<open>select_model\<close> and
  \<open>predict\<close> requests has an active name that is a member of the registry's
  \<open>available_models\<close>, and the registry is still the one startup loaded.
\<close>

theorem C3_active_name_listed_when_default_listed:
  assumes start: "startup_event fs s0 = (Inr (), s1)"
    and reg: "REGISTRY s1 = Some r"
    and dflt: "default_model r = Some d"
    and listed: "d \<in> set (get_available_models r)"
    and calls: "\<forall>c\<in>set cs. \<not> is_Startup c"
  shows "ACTIVE_MODEL_NAME s1 = Some d
         \<and> (\<exists>n. ACTIVE_MODEL_NAME (run pp cs s1) = Some n \<and> n \<in> set (get_available_models r))
         \<and> REGISTRY (run pp cs s1) = Some r"
proof -
  have name: "ACTIVE_MODEL_NAME s1 = Some d"
    using start reg dflt
    by (auto simp add: startup_event_def Let_def set_active_model_def
          split: sum.splits option.splits)
  then have "\<exists>n. ACTIVE_MODEL_NAME s1 = Some n \<and> n \<in> set (get_available_models r)"
    using listed by simp
  with calls reg
  have "\<exists>n. ACTIVE_MODEL_NAME (run pp cs s1) = Some n \<and> n \<in> set (get_available_models r)"
    by (rule run_listed)
  moreover have "REGISTRY (run pp cs s1) = Some r"
    using calls reg by (simp add: run_REGISTRY)
  ultimately show ?thesis using name by simp
qed

theorem C3_active_name_listed_when_default_listed_witness:
  "startup_event fs_both init_state = (Inr (), ready_rf)
   \<and> REGISTRY ready_rf = Some listed_registry
   \<and> default_model listed_registry = Some ''rf''
   \<and> ''rf'' \<in> set (get_available_models listed_registry)
   \<and> map is_Startup [Select fs_both \<lparr>model_name = ''svm''\<rparr>, Predict biscoe_2008,
                       Select fs_xgb_unlisted \<lparr>model_name = ''xgb''\<rparr>]
       = [False, False, False]
   \<and> (\<exists>n. ACTIVE_MODEL_NAME (run label_by_handle
               [Select fs_both \<lparr>model_name = ''svm''\<rparr>, Predict biscoe_2008,
                Select fs_xgb_unlisted \<lparr>model_name = ''xgb''\<rparr>] ready_rf) = Some n
            \<and> n \<in> set (get_available_models listed_registry))"
proof -
  have start: "startup_event fs_both init_state = (Inr (), ready_rf)"
    by (simp add: startup_event_def load_registry_def set_active_model_def load_model_def
          fs_both_def listed_registry_def init_state_def ready_rf_def path_defs)
  have reg: "REGISTRY ready_rf = Some listed_registry"
    by (simp add: ready_rf_def)
  have dflt: "default_model listed_registry = Some ''rf''"
    by (simp add: listed_registry_def)
  have listed: "''rf'' \<in> set (get_available_models listed_registry)"
    by (simp add: get_available_models_def listed_registry_def)
  have calls: "\<forall>c\<in>set [Select fs_both \<lparr>model_name = ''svm''\<rparr>, Predict biscoe_2008,
                 Select fs_xgb_unlisted \<lparr>model_name = ''xgb''\<rparr>]. \<not> is_Startup c"
    by simp
  from C3_active_name_listed_when_default_listed
         [where pp = label_by_handle, OF start reg dflt listed calls]
       start reg dflt listed calls
  show ?thesis by simp
qed

subsection \<open>Configuration errors\<close>

text \<open>
  Claim C4, counterexample. On a descriptor that exists but has no \<open>default_model\<close>,
  \<open>load_registry\<close> does not fail: it returns the parsed descriptor.
\<close>

theorem C4_load_registry_accepts_missing_default_counterexample:
  "fs_no_default REGISTRY_PATH
     = Some (Descriptor \<lparr>default_model = None, available_models = Some [''rf'']\<rparr>)
   \<and> load_registry fs_no_default
     = Inr \<lparr>default_model = None, available_models = Some [''rf'']\<rparr>"
  by (simp add: load_registry_def fs_no_default_def no_default_registry_def path_defs)

text \<open>
  Claim C4, amended. \<open>load_registry\<close> fails with the configuration error
  "registry.json no existe en /models" when the descriptor file does not exist, and
  startup fails with it. When the descriptor exists but has no \<open>default_model\<close>,
  \<open>load_registry\<close> returns it, and the configuration error
  "registry.json no tiene 'default_model'" is raised by \<open>startup_event\<close>, after it has
  stored the registry and before any model is loaded.
\<close>

theorem C4_configuration_errors:
  "(fs1 REGISTRY_PATH = None \<longrightarrow>
      load_registry fs1 = Inl (RuntimeError ''registry.json no existe en /models'')
      \<and> startup_event fs1 s = (Inl (RuntimeError ''registry.json no existe en /models''), s))
   \<and> (fs2 REGISTRY_PATH = Some (Descriptor r) \<and> default_model r = None \<longrightarrow>
      load_registry fs2 = Inr r
      \<and> startup_event fs2 s =
          (Inl (RuntimeError
                 (''registry.json no tiene '' @ [CHR 0x27] @ ''default_model'' @ [CHR 0x27])),
           s\<lparr>REGISTRY := Some r\<rparr>))"
  by (simp add: load_registry_def startup_event_def)

theorem C4_configuration_errors_witness:
  "fs_none REGISTRY_PATH = None
   \<and> fs_no_default REGISTRY_PATH = Some (Descriptor no_default_registry)
   \<and> default_model no_default_registry = None
   \<and> load_registry fs_none = Inl (RuntimeError ''registry.json no existe en /models'')
   \<and> load_registry fs_no_default = Inr no_default_registry
   \<and> fst (startup_event fs_no_default init_state) =
        Inl (RuntimeError
               (''registry.json no tiene '' @ [CHR 0x27] @ ''default_model'' @ [CHR 0x27]))
   \<and> ACTIVE_MODEL_PIPE (snd (startup_event fs_no_default init_state)) = None"
proof -
  have absent: "fs_none REGISTRY_PATH = None"
    by (simp add: fs_none_def)
  have present: "fs_no_default REGISTRY_PATH = Some (Descriptor no_default_registry)"
    by (simp add: fs_no_default_def path_defs)
  have nodflt: "default_model no_default_registry = None"
    by (simp add: no_default_registry_def)
  from C4_configuration_errors
         [where ?fs1.0 = fs_none and ?fs2.0 = fs_no_default and r = no_default_registry
            and s = init_state]
       absent present nodflt
  show ?thesis by (simp add: init_state_def)
qed

end
